theory Spec2Isabelle
  imports Complex_Main
begin

section \<open>JavaScript strings and numbers\<close>

text \<open>
  Strings are lists of characters. Numbers are exact rationals: the source's numbers are
  IEEE doubles, and every number these functions build is an integer or a short decimal
  fraction, which a double renders back as written.
\<close>

type_synonym log = "string list"

definition isWhiteSpace :: "char \<Rightarrow> bool" where
  "isWhiteSpace c = (c \<in> set [CHR 0x09, CHR 0x0A, CHR 0x0B, CHR 0x0C, CHR 0x0D, CHR 0x20, CHR 0xA0])"

definition trimStart :: "string \<Rightarrow> string" where
  "trimStart s = dropWhile isWhiteSpace s"

definition trimEnd :: "string \<Rightarrow> string" where
  "trimEnd s = rev (dropWhile isWhiteSpace (rev s))"

definition trim :: "string \<Rightarrow> string" where
  "trim s = trimEnd (trimStart s)"

definition padStart :: "nat \<Rightarrow> char \<Rightarrow> string \<Rightarrow> string" where
  "padStart n c s = replicate (n - length s) c @ s"

definition endsWith :: "string \<Rightarrow> string \<Rightarrow> bool" where
  "endsWith s suffix = (length suffix \<le> length s \<and> drop (length s - length suffix) s = suffix)"

fun join :: "string \<Rightarrow> string list \<Rightarrow> string" where
  "join sep [] = []"
| "join sep [x] = x"
| "join sep (x # y # ys) = x @ sep @ join sep (y # ys)"

definition digit_char :: "nat \<Rightarrow> char" where
  "digit_char n = ''0123456789'' ! (n mod 10)"

fun String_nat :: "nat \<Rightarrow> string" where
  "String_nat n = (if n < 10 then [digit_char n] else String_nat (n div 10) @ [digit_char (n mod 10)])"

definition String_int :: "int \<Rightarrow> string" where
  "String_int i = (if i < 0 then ''-'' @ String_nat (nat (- i)) else String_nat (nat i))"

text \<open>
  \<open>String(x)\<close> and template interpolation of a number, as the language defines it: the
  number is \<open>s\<close> times ten to the \<open>e\<close> with \<open>s\<close> a whole number that does not end in 0; with
  \<open>k\<close> the count of digits of \<open>s\<close> and \<open>n = k + e\<close>, the digits are printed positionally when
  \<open>n\<close> is from -5 to 21 and with an exponent otherwise. A number here is an exact rational;
  the printing is that of the language for every number whose shortest decimal form is
  exact, which holds for the whole numbers up to 2 to the 53 and for decimals of up to
  15 significant digits.
\<close>

function stripZeros :: "nat \<Rightarrow> int \<Rightarrow> nat \<times> int" where
  "stripZeros s e = (if s \<noteq> 0 \<and> s mod 10 = 0 then stripZeros (s div 10) (e + 1) else (s, e))"
  by pat_completeness auto
termination
  by (relation "measure (\<lambda>(s, e). s)") auto

text \<open>At most \<open>fuel\<close> fraction digits are kept; a double has at most 1074.\<close>

fun scaleUp :: "nat \<Rightarrow> rat \<Rightarrow> int \<Rightarrow> nat \<times> int" where
  "scaleUp 0 a e = (nat \<lfloor>a\<rfloor>, e)"
| "scaleUp (Suc fuel) a e = (if a = of_int \<lfloor>a\<rfloor> then (nat \<lfloor>a\<rfloor>, e) else scaleUp fuel (a * 10) (e - 1))"

definition decimalParts :: "rat \<Rightarrow> nat \<times> int" where
  "decimalParts a = (if a = of_int \<lfloor>a\<rfloor> then stripZeros (nat \<lfloor>a\<rfloor>) 0 else scaleUp 1100 a 0)"

definition exponentForm :: "string \<Rightarrow> int \<Rightarrow> string" where
  "exponentForm digits n =
     take 1 digits @ (if drop 1 digits = [] then [] else ''.'' @ drop 1 digits)
     @ ''e'' @ (if 0 \<le> n - 1 then ''+'' else ''-'') @ String_nat (nat \<bar>n - 1\<bar>)"

text \<open>A positive number. A whole number below ten to the 21 is its digits.\<close>

definition String_pos :: "rat \<Rightarrow> string" where
  "String_pos a =
     (if a = of_int \<lfloor>a\<rfloor> \<and> a < 1000000000000000000000 then String_nat (nat \<lfloor>a\<rfloor>)
      else case decimalParts a of
        (s, e) \<Rightarrow>
          (let digits = String_nat s; k = int (length digits); n = k + e
           in if 0 < n \<and> n \<le> 21 \<and> n < k then take (nat n) digits @ ''.'' @ drop (nat n) digits
              else if - 6 < n \<and> n \<le> 0 then ''0.'' @ replicate (nat (- n)) CHR ''0'' @ digits
              else exponentForm digits n))"

definition String_num :: "rat \<Rightarrow> string" where
  "String_num q = (if q = 0 then ''0'' else (if q < 0 then ''-'' else []) @ String_pos \<bar>q\<bar>)"

definition String_bool :: "bool \<Rightarrow> string" where
  "String_bool b = (if b then ''true'' else ''false'')"

section \<open>seqJsonToSeqn.ts: the document model\<close>

text \<open>
  A value of a metadata mapping: any JSON value. An object is the list of its entries in
  the order \<open>Object.entries\<close> gives them.
\<close>

datatype json = JNull | JBool bool | JNum rat | JStr string | JArr "json list" | JObj "(string \<times> json) list"

type_synonym Metadata = "(string \<times> json) list"

text \<open>A primitive that is a string, a number or a boolean (a model's value and variable).\<close>

datatype prim = PStr string | PNum rat | PBool bool

record Time =
  time_type :: string
  tag :: "string option"

datatype base_arg =
    StringArgument string
  | NumberArgument rat
  | BooleanArgument bool
  | SymbolArgument string
  | HexArgument string

text \<open>
  A repeat argument's \<open>value\<close> should be an array of arrays; the serializer tests both
  levels with \<open>Array.isArray\<close>, so both ways of not being one are part of the model.
\<close>

datatype repeat_set = ArgSet "base_arg list" | NotAnArraySet

datatype repeat_value = RepeatSets "repeat_set list" | NotAnArray

datatype arg = Base base_arg | Repeat repeat_value

record Model =
  variable :: prim
  model_value :: prim
  offset :: string

record Range =
  range_min :: rat
  range_max :: rat

record VariableDeclaration =
  var_name :: string
  var_type :: "string option"
  enum_name :: "string option"
  allowable_ranges :: "Range list option"
  allowable_values :: "prim list option"

text \<open>
  The declared types make \<open>args\<close> a required array of a command and of an immediate
  command, and every text field a string. A step in which a required field is missing, on
  which the printing would throw, is outside this model: only the shapes that the
  serializer itself tests for (\<open>Array.isArray\<close>, the \<open>switch\<close> defaults, the guard on
  \<open>metadata\<close>) are part of it.
\<close>

record Command =
  c_time :: Time
  c_stem :: string
  c_args :: "arg list"
  c_description :: "string option"
  c_metadata :: "Metadata option"
  c_models :: "Model list option"

record Activate =
  a_time :: Time
  a_sequence :: string
  a_args :: "arg list option"
  a_description :: "string option"
  a_engine :: "int option"
  a_epoch :: "string option"
  a_metadata :: "Metadata option"
  a_models :: "Model list option"

record Ground =
  g_time :: Time
  g_name :: string
  g_args :: "arg list option"
  g_description :: "string option"
  g_metadata :: "Metadata option"
  g_models :: "Model list option"

text \<open>A step by its \<open>type\<close> field; \<open>OtherStep\<close> is a step of any other type.\<close>

datatype Step =
    CommandStep Command
  | ActivateStep Activate
  | LoadStep Activate
  | GroundBlockStep Ground
  | GroundEventStep Ground
  | OtherStep string

record ImmediateCommand =
  i_stem :: string
  i_args :: "arg list"
  i_description :: "string option"
  i_metadata :: "Metadata option"

record HardwareCommand =
  h_stem :: string
  h_description :: "string option"
  h_metadata :: "Metadata option"

record GroundEpoch =
  delta :: "string option"
  ge_name :: "string option"

record Request =
  r_name :: string
  r_time :: "Time option"
  r_ground_epoch :: "GroundEpoch option"
  r_description :: "string option"
  r_steps :: "Step list"
  r_metadata :: "Metadata option"

record SeqJson =
  seq_id :: string
  parameters :: "VariableDeclaration list option"
  locals :: "VariableDeclaration list option"
  metadata :: "Metadata option"
  steps :: "Step list option"
  immediate_commands :: "ImmediateCommand list option"
  hardware_commands :: "HardwareCommand list option"
  requests :: "Request list option"

datatype error = TypeError | InvalidTimeFormat

section \<open>seqJsonToSeqn.ts: helpers the file imports\<close>

text \<open>
  Modelled from the spec: \<open>quoteEscape\<close> of \<open>./parse-utils\<close> is not among the
  sources; the spec says string arguments are quote-escaped: the text stands between double
  quotes, every double quote inside it behind a backslash. No theorem below depends on
  more than its being a function.
\<close>

definition quoteEscape :: "string \<Rightarrow> string" where
  "quoteEscape s = [CHR 0x22] @ concat (map (\<lambda>c. if c = CHR 0x22 then [CHR 0x5C, CHR 0x22] else [c]) s) @ [CHR 0x22]"

text \<open>\<open>JSON.stringify(value, null, 2)\<close> of the language: two spaces per nesting level.\<close>

definition hex_char :: "nat \<Rightarrow> char" where
  "hex_char n = ''0123456789abcdef'' ! (n mod 16)"

definition quoteJSONChar :: "char \<Rightarrow> string" where
  "quoteJSONChar c =
     (if c = CHR 0x22 then [CHR 0x5C, CHR 0x22]
      else if c = CHR 0x5C then [CHR 0x5C, CHR 0x5C]
      else if c = CHR 0x08 then [CHR 0x5C, CHR ''b'']
      else if c = CHR 0x0C then [CHR 0x5C, CHR ''f'']
      else if c = CHR 0x0A then [CHR 0x5C, CHR ''n'']
      else if c = CHR 0x0D then [CHR 0x5C, CHR ''r'']
      else if c = CHR 0x09 then [CHR 0x5C, CHR ''t'']
      else if (of_char c :: nat) < 32
        then [CHR 0x5C, CHR ''u'', CHR ''0'', CHR ''0'', hex_char (of_char c div 16), hex_char (of_char c)]
      else [c])"

definition quoteJSONString :: "string \<Rightarrow> string" where
  "quoteJSONString s = [CHR 0x22] @ concat (map quoteJSONChar s) @ [CHR 0x22]"

fun stringify_at :: "nat \<Rightarrow> json \<Rightarrow> string" where
  "stringify_at d JNull = ''null''"
| "stringify_at d (JBool b) = String_bool b"
| "stringify_at d (JNum n) = String_num n"
| "stringify_at d (JStr s) = quoteJSONString s"
| "stringify_at d (JArr xs) =
     (if xs = [] then ''[]''
      else ''['' @ [CHR 0x0A]
        @ join ('','' @ [CHR 0x0A]) (map (\<lambda>x. replicate (2 * Suc d) CHR '' '' @ stringify_at (Suc d) x) xs)
        @ [CHR 0x0A] @ replicate (2 * d) CHR '' '' @ '']'')"
| "stringify_at d (JObj kvs) =
     (if kvs = [] then ''{}''
      else ''{'' @ [CHR 0x0A]
        @ join ('','' @ [CHR 0x0A])
            (map (\<lambda>kv. replicate (2 * Suc d) CHR '' '' @ quoteJSONString (fst kv) @ '': ''
                        @ stringify_at (Suc d) (snd kv)) kvs)
        @ [CHR 0x0A] @ replicate (2 * d) CHR '' '' @ ''}'')"

definition JSON_stringify :: "json \<Rightarrow> string" where
  "JSON_stringify v = stringify_at 0 v"

text \<open>Truthiness of a property that may be absent (\<open>undefined\<close> is falsy).\<close>

fun truthy :: "json option \<Rightarrow> bool" where
  "truthy None = False"
| "truthy (Some JNull) = False"
| "truthy (Some (JBool b)) = b"
| "truthy (Some (JNum n)) = (n \<noteq> 0)"
| "truthy (Some (JStr s)) = (s \<noteq> [])"
| "truthy (Some (JArr xs)) = True"
| "truthy (Some (JObj kvs)) = True"

text \<open>An optional string in a condition: absent and empty are both falsy.\<close>

fun truthy_str :: "string option \<Rightarrow> bool" where
  "truthy_str None = False"
| "truthy_str (Some s) = (s \<noteq> [])"

fun String_prim :: "prim \<Rightarrow> string" where
  "String_prim (PStr s) = s"
| "String_prim (PNum n) = String_num n"
| "String_prim (PBool b) = String_bool b"

section \<open>seqJsonToSeqn.ts: the serializer\<close>

definition dq :: string where
  "dq = [CHR 0x22]"

definition nl :: string where
  "nl = [CHR 0x0A]"

text \<open>\<open>x ?? ''\<close>\<close>

fun orEmpty :: "string option \<Rightarrow> string" where
  "orEmpty None = []"
| "orEmpty (Some s) = s"

definition seqJsonTimeToSequence :: "Time \<Rightarrow> string" where
  "seqJsonTimeToSequence time =
     (if time_type time = ''ABSOLUTE'' then ''A'' @ orEmpty (tag time)
      else if time_type time = ''COMMAND_COMPLETE'' then ''C''
      else if time_type time = ''COMMAND_RELATIVE'' then ''R'' @ orEmpty (tag time)
      else if time_type time = ''EPOCH_RELATIVE'' then ''E'' @ orEmpty (tag time)
      else [])"

fun seqJsonBaseArgToSequence :: "base_arg \<Rightarrow> string" where
  "seqJsonBaseArgToSequence (StringArgument v) = quoteEscape v"
| "seqJsonBaseArgToSequence (NumberArgument v) = String_num v"
| "seqJsonBaseArgToSequence (BooleanArgument v) = String_bool v"
| "seqJsonBaseArgToSequence (SymbolArgument v) = v"
| "seqJsonBaseArgToSequence (HexArgument v) = v"

text \<open>
  The loops of \<open>seqJsonArgsToSequence\<close>, each body a function of the text built so far and
  the log that \<open>logError\<close> appends to.
\<close>

fun repeatArgSetToSequence :: "repeat_set \<Rightarrow> string \<times> log \<Rightarrow> string \<times> log" where
  "repeatArgSetToSequence (ArgSet repeatArgSet) (repeatResult, lg) =
     (trim (fold (\<lambda>repeatArg r. r @ '' '' @ seqJsonBaseArgToSequence repeatArg) repeatArgSet repeatResult), lg)"
| "repeatArgSetToSequence NotAnArraySet (repeatResult, lg) =
     (repeatResult, lg @ [''Repeat arg set value is not an array''])"

fun argToSequence :: "arg \<Rightarrow> string \<times> log \<Rightarrow> string \<times> log" where
  "argToSequence (Repeat (RepeatSets sets)) (result, lg) =
     (case fold repeatArgSetToSequence sets ([], lg) of
        (repeatResult, lg') \<Rightarrow> (trimEnd (result @ '' '' @ ''['' @ repeatResult @ '']''), lg'))"
| "argToSequence (Repeat NotAnArray) (result, lg) =
     (trimEnd (result @ '' ''), lg @ [''Repeat arg value is not an array''])"
| "argToSequence (Base a) (result, lg) =
     (trimEnd (result @ '' '' @ seqJsonBaseArgToSequence a), lg)"

definition seqJsonArgsToSequence :: "arg list \<Rightarrow> log \<Rightarrow> string \<times> log" where
  "seqJsonArgsToSequence args lg =
     (case fold argToSequence args ([], lg) of
        (result, lg') \<Rightarrow> ((if length (trim result) > 0 then '' '' @ trim result else []), lg'))"

definition modelToSequence :: "Model \<Rightarrow> string" where
  "modelToSequence model =
     ''@MODEL ''
     @ (case variable model of PStr s \<Rightarrow> quoteEscape s | v \<Rightarrow> dq @ String_prim v @ dq)
     @ '' ''
     @ (case model_value model of PStr s \<Rightarrow> quoteEscape s | v \<Rightarrow> String_prim v)
     @ '' '' @ quoteEscape (offset model)"

definition seqJsonModelsToSequence :: "Model list \<Rightarrow> string" where
  "seqJsonModelsToSequence models =
     (let modelString = join nl (map modelToSequence models)
      in if length modelString > 0 then modelString @ nl else [])"

definition metadataLine :: "string \<times> json \<Rightarrow> string" where
  "metadataLine kv = ''@METADATA '' @ quoteEscape (fst kv) @ '' '' @ JSON_stringify (snd kv)"

definition seqJsonMetadataToSequence :: "Metadata \<Rightarrow> string" where
  "seqJsonMetadataToSequence md =
     (let metaDataString = join nl (map metadataLine md)
      in if length metaDataString > 0 then metaDataString @ nl else [])"

text \<open>\<open>x ? ` ${x}` : ''\<close> of an optional string.\<close>

fun optionalWord :: "string option \<Rightarrow> string" where
  "optionalWord None = []"
| "optionalWord (Some w) = (if w \<noteq> [] then '' '' @ w else [])"

definition variableToSequence :: "VariableDeclaration \<Rightarrow> string" where
  "variableToSequence v =
     (let name = var_name v;
          type = optionalWord (var_type v);
          enumName = optionalWord (enum_name v);
          allowableRanges =
            (case allowable_ranges v of
               Some ranges \<Rightarrow>
                 '' '' @ dq
                 @ join '','' (map (\<lambda>range. String_num (range_min range) @ ''...'' @ String_num (range_max range)) ranges)
                 @ dq
             | None \<Rightarrow> []);
          allowableValues =
            (case allowable_values v of
               Some vals \<Rightarrow>
                 '' '' @ (if length allowableRanges = 0 then dq @ dq @ '' '' else [])
                 @ dq @ join '','' (map String_prim vals) @ dq
             | None \<Rightarrow> [])
      in name @ type @ enumName @ allowableRanges @ allowableValues)"

text \<open>The second argument is the block's name, \<open>INPUT_PARAMS\<close> or \<open>LOCALS\<close>.\<close>

definition seqJsonVariableToSequence :: "VariableDeclaration list \<Rightarrow> string \<Rightarrow> string" where
  "seqJsonVariableToSequence variables type =
     trim (''@'' @ type @ ''_BEGIN'' @ nl @ join nl (map variableToSequence variables))
     @ nl @ ''@'' @ type @ ''_END'' @ nl"

definition seqJsonDescriptionToSequence :: "string \<Rightarrow> string" where
  "seqJsonDescriptionToSequence description = '' # '' @ description @ nl"

text \<open>The recurring pieces of the step printers.\<close>

definition optDescription :: "string option \<Rightarrow> string" where
  "optDescription d = (if truthy_str d then seqJsonDescriptionToSequence (orEmpty d) else [])"

definition optMetadata :: "Metadata option \<Rightarrow> string" where
  "optMetadata m = (case m of Some md \<Rightarrow> seqJsonMetadataToSequence md | None \<Rightarrow> [])"

definition optModels :: "Model list option \<Rightarrow> string" where
  "optModels m = (case m of Some ms \<Rightarrow> seqJsonModelsToSequence ms | None \<Rightarrow> [])"

definition optArgs :: "arg list option \<Rightarrow> log \<Rightarrow> string \<times> log" where
  "optArgs a lg = (case a of Some args \<Rightarrow> seqJsonArgsToSequence args lg | None \<Rightarrow> ([], lg))"

definition ensureNewline :: "string \<Rightarrow> string" where
  "ensureNewline s = (if \<not> endsWith s nl then s @ nl else s)"

definition commandToString :: "Command \<Rightarrow> log \<Rightarrow> string \<times> log" where
  "commandToString step lg =
     (let time = seqJsonTimeToSequence (c_time step) in
      case seqJsonArgsToSequence (c_args step) lg of
        (args, lg') \<Rightarrow>
          (let metadata = optMetadata (c_metadata step);
               models = optModels (c_models step);
               description = optDescription (c_description step);
               commandString = ensureNewline (time @ '' '' @ c_stem step @ args @ description)
           in (commandString @ metadata @ models, lg')))"

text \<open>The first argument says whether the step's type is \<open>activate\<close> (otherwise \<open>load\<close>).\<close>

definition loadOrActivateToString :: "bool \<Rightarrow> Activate \<Rightarrow> log \<Rightarrow> string \<times> log" where
  "loadOrActivateToString isActivate step lg =
     (let time = seqJsonTimeToSequence (a_time step) in
      case optArgs (a_args step) lg of
        (args, lg') \<Rightarrow>
          (let metadata = optMetadata (a_metadata step);
               models = optModels (a_models step);
               engine = (case a_engine step of Some e \<Rightarrow> ''@ENGINE '' @ String_int e @ nl | None \<Rightarrow> []);
               epoch = (case a_epoch step of Some e \<Rightarrow> ''@EPOCH '' @ quoteEscape e @ nl | None \<Rightarrow> []);
               description = optDescription (a_description step);
               stepType = ''@'' @ (if isActivate then ''ACTIVATE'' else ''LOAD'')
                            @ ''('' @ quoteEscape (a_sequence step) @ '')'';
               stepString = ensureNewline (time @ '' '' @ stepType @ args @ description)
           in (stepString @ engine @ epoch @ metadata @ models, lg')))"

text \<open>The first argument says whether the step's type is \<open>ground_block\<close> (otherwise \<open>ground_event\<close>).\<close>

definition groundToString :: "bool \<Rightarrow> Ground \<Rightarrow> log \<Rightarrow> string \<times> log" where
  "groundToString isBlock step lg =
     (let time = seqJsonTimeToSequence (g_time step) in
      case optArgs (g_args step) lg of
        (args, lg') \<Rightarrow>
          (let metadata = optMetadata (g_metadata step);
               models = optModels (g_models step);
               description = optDescription (g_description step);
               stepType = ''@'' @ (if isBlock then ''GROUND_BLOCK'' else ''GROUND_EVENT'')
                            @ ''('' @ quoteEscape (g_name step) @ '')'';
               stepString = ensureNewline (time @ '' '' @ stepType @ args @ description)
           in (stepString @ metadata @ models, lg')))"

text \<open>
  The \<open>switch (step.type)\<close> inside the loops over steps: it pushes one string for a step of
  a known type and nothing for any other.
\<close>

fun pushStep :: "Step \<Rightarrow> string list \<times> log \<Rightarrow> string list \<times> log" where
  "pushStep (CommandStep c) (seqn, lg) = (case commandToString c lg of (s, lg') \<Rightarrow> (seqn @ [s], lg'))"
| "pushStep (ActivateStep a) (seqn, lg) = (case loadOrActivateToString True a lg of (s, lg') \<Rightarrow> (seqn @ [s], lg'))"
| "pushStep (LoadStep a) (seqn, lg) = (case loadOrActivateToString False a lg of (s, lg') \<Rightarrow> (seqn @ [s], lg'))"
| "pushStep (GroundBlockStep g) (seqn, lg) = (case groundToString True g lg of (s, lg') \<Rightarrow> (seqn @ [s], lg'))"
| "pushStep (GroundEventStep g) (seqn, lg) = (case groundToString False g lg of (s, lg') \<Rightarrow> (seqn @ [s], lg'))"
| "pushStep (OtherStep t) (seqn, lg) = (seqn, lg)"

definition requestToString :: "Request \<Rightarrow> log \<Rightarrow> string \<times> log" where
  "requestToString request lg =
     (let time =
            (case r_time request of
               Some t \<Rightarrow> seqJsonTimeToSequence t
             | None \<Rightarrow>
                 (case r_ground_epoch request of
                    Some ge \<Rightarrow> ''G'' @ orEmpty (delta ge) @ '' '' @ quoteEscape (orEmpty (ge_name ge))
                  | None \<Rightarrow> []));
          reqBegin = ''@REQUEST_BEGIN('' @ quoteEscape (r_name request) @ '')'';
          description = optDescription (r_description request);
          requestString = ensureNewline (time @ '' '' @ reqBegin @ description)
      in case fold pushStep (r_steps request) ([], lg) of
           (stepStrings, lg') \<Rightarrow>
             (let metadata = optMetadata (r_metadata request)
              in (requestString @ concat stepStrings @ ''@REQUEST_END'' @ nl @ metadata, lg')))"

fun pushImmediate :: "ImmediateCommand \<Rightarrow> string list \<times> log \<Rightarrow> string list \<times> log" where
  "pushImmediate icmd (seqn, lg) =
     (case seqJsonArgsToSequence (i_args icmd) lg of
        (args, lg') \<Rightarrow>
          (let description = optDescription (i_description icmd);
               metadata = optMetadata (i_metadata icmd);
               immediateString = ensureNewline (i_stem icmd @ args @ description)
           in (seqn @ [immediateString @ metadata], lg')))"

fun pushHardware :: "HardwareCommand \<Rightarrow> string list \<times> log \<Rightarrow> string list \<times> log" where
  "pushHardware hdw (seqn, lg) =
     (let description = optDescription (h_description hdw);
          metadata = optMetadata (h_metadata hdw);
          hardwareString = ensureNewline (h_stem hdw @ description)
      in (seqn @ [hardwareString @ metadata], lg))"

fun pushRequest :: "Request \<Rightarrow> string list \<times> log \<Rightarrow> string list \<times> log" where
  "pushRequest request (seqn, lg) =
     (case requestToString request lg of (s, lg') \<Rightarrow> (seqn @ [nl] @ [s], lg'))"

text \<open>
  \<open>Object.entries(metadata).filter(([key]) => key !== 'lgo').reduce((obj, [key, value]) =>
  ({ ...obj, [key]: value }), {})\<close>: an object rebuilt entry by entry; setting a key the
  object has keeps its place.
\<close>

fun setKey :: "string \<Rightarrow> json \<Rightarrow> Metadata \<Rightarrow> Metadata" where
  "setKey k v [] = [(k, v)]"
| "setKey k v (e # es) = (if fst e = k then (k, v) # es else e # setKey k v es)"

definition withoutLgo :: "Metadata \<Rightarrow> Metadata" where
  "withoutLgo md = fold (\<lambda>kv obj. setKey (fst kv) (snd kv) obj) (filter (\<lambda>kv. fst kv \<noteq> ''lgo'') md) []"

text \<open>
  \<open>seqJsonToSeqn\<close> pushes its sections onto one list and joins it at the end. The sections
  before the metadata: the identifier, the parameters, the locals.
\<close>

definition headerSections :: "SeqJson \<Rightarrow> string list" where
  "headerSections seqJson =
     (let seqn0 = [''@ID '' @ dq @ seq_id seqJson @ dq @ nl];
          seqn1 = (case parameters seqJson of
                     Some ps \<Rightarrow> seqn0 @ [seqJsonVariableToSequence ps ''INPUT_PARAMS'']
                   | None \<Rightarrow> seqn0)
      in case locals seqJson of
           Some ls \<Rightarrow> seqn1 @ [seqJsonVariableToSequence ls ''LOCALS'']
         | None \<Rightarrow> seqn1)"

text \<open>
  The sections after the load-and-go line, each a function of the list of sections and the
  log so far: steps, immediate commands, hardware commands, requests.
\<close>

fun stepsSection :: "SeqJson \<Rightarrow> string list \<times> log \<Rightarrow> string list \<times> log" where
  "stepsSection seqJson (seqn, lg) =
     (case steps seqJson of
        Some ss \<Rightarrow> fold pushStep ss (seqn @ [nl], lg)
      | None \<Rightarrow> (seqn, lg))"

fun immediateSection :: "SeqJson \<Rightarrow> string list \<times> log \<Rightarrow> string list \<times> log" where
  "immediateSection seqJson (seqn, lg) =
     (case immediate_commands seqJson of
        Some ics \<Rightarrow> fold pushImmediate ics (seqn @ [nl] @ [''@IMMEDIATE'' @ nl], lg)
      | None \<Rightarrow> (seqn, lg))"

fun hardwareSection :: "SeqJson \<Rightarrow> string list \<times> log \<Rightarrow> string list \<times> log" where
  "hardwareSection seqJson (seqn, lg) =
     (case hardware_commands seqJson of
        Some hs \<Rightarrow> fold pushHardware hs (seqn @ [nl] @ [''@HARDWARE'' @ nl], lg)
      | None \<Rightarrow> (seqn, lg))"

fun requestsSection :: "SeqJson \<Rightarrow> string list \<times> log \<Rightarrow> string list \<times> log" where
  "requestsSection seqJson (seqn, lg) =
     (case requests seqJson of
        Some rs \<Rightarrow> fold pushRequest rs (seqn, lg)
      | None \<Rightarrow> (seqn, lg))"

definition bodySections :: "SeqJson \<Rightarrow> string list \<Rightarrow> string list \<times> log" where
  "bodySections seqJson seqn4 =
     requestsSection seqJson (hardwareSection seqJson (immediateSection seqJson (stepsSection seqJson (seqn4, []))))"

text \<open>
  Reading \<open>metadata.lgo\<close> of a document without metadata throws a TypeError, before any
  step is printed.
\<close>

definition seqJsonToSeqn :: "SeqJson \<Rightarrow> error + (string \<times> log)" where
  "seqJsonToSeqn seqJson =
     (let seqn2 = headerSections seqJson
      in case metadata seqJson of
           None \<Rightarrow> Inl TypeError
         | Some md \<Rightarrow>
             (let seqn3 = seqn2 @ [seqJsonMetadataToSequence (withoutLgo md)];
                  seqn4 = (if truthy (map_of md ''lgo'') then seqn3 @ [nl @ ''@LOAD_AND_GO''] else seqn3)
              in case bodySections seqJson seqn4 of
                   (seqn8, lg8) \<Rightarrow> Inr (concat seqn8, lg8)))"


section \<open>Regular expressions of the language\<close>

text \<open>
  The patterns of \<open>time.ts\<close> are terms of this type, matched the way the language matches
  them: by backtracking, alternatives tried left to right, quantifiers greedy. A capture
  group that the code never reads is written without \<open>Grp\<close>; a numbered group that it
  reads is named by its number.
\<close>

datatype rx =
    Lit char
  | Cls "char list"
  | Eps
  | Seq rx rx
  | Alt rx rx
  | Opt rx
  | Star rx
  | Grp string rx
  | NegLook rx
  | Bol
  | Eol

type_synonym caps = "(string \<times> string) list"

text \<open>
  \<open>rxm r p s cs\<close>: every way for \<open>r\<close> to match at position \<open>p\<close>, where \<open>s\<close> is the input from
  \<open>p\<close> on and \<open>cs\<close> the captures so far, in the order backtracking tries them. Each is the
  position after the match, the input left and the captures. An iteration of a quantifier
  that consumes nothing is refused, as the language does.
\<close>

fun rxm :: "rx \<Rightarrow> nat \<Rightarrow> string \<Rightarrow> caps \<Rightarrow> (nat \<times> string \<times> caps) list" where
  "rxm (Lit c) p s cs = (case s of [] \<Rightarrow> [] | x # xs \<Rightarrow> if x = c then [(Suc p, xs, cs)] else [])"
| "rxm (Cls k) p s cs = (case s of [] \<Rightarrow> [] | x # xs \<Rightarrow> if x \<in> set k then [(Suc p, xs, cs)] else [])"
| "rxm Eps p s cs = [(p, s, cs)]"
| "rxm (Seq a b) p s cs = concat (map (\<lambda>(p', s', cs'). rxm b p' s' cs') (rxm a p s cs))"
| "rxm (Alt a b) p s cs = rxm a p s cs @ rxm b p s cs"
| "rxm (Opt a) p s cs = filter (\<lambda>(p', s', cs'). length s' < length s) (rxm a p s cs) @ [(p, s, cs)]"
| "rxm (Star a) p s cs =
     concat (map (\<lambda>(p', s', cs'). if length s' < length s then rxm (Star a) p' s' cs' else [])
                 (rxm a p s cs))
     @ [(p, s, cs)]"
| "rxm (Grp n a) p s cs = map (\<lambda>(p', s', cs'). (p', s', (n, take (p' - p) s) # cs')) (rxm a p s cs)"
| "rxm (NegLook a) p s cs = (if rxm a p s cs = [] then [(p, s, cs)] else [])"
| "rxm Bol p s cs = (if p = 0 then [(p, s, cs)] else [])"
| "rxm Eol p s cs = (if s = [] then [(p, s, cs)] else [])"

text \<open>\<open>re.exec(s)\<close> and \<open>s.match(re)\<close>: the first match from the leftmost position that has one.\<close>

fun rx_search :: "rx \<Rightarrow> nat \<Rightarrow> string \<Rightarrow> caps option" where
  "rx_search r p [] = (case rxm r p [] [] of [] \<Rightarrow> None | m # ms \<Rightarrow> Some (snd (snd m)))"
| "rx_search r p (c # s) =
     (case rxm r p (c # s) [] of [] \<Rightarrow> rx_search r (Suc p) s | m # ms \<Rightarrow> Some (snd (snd m)))"

definition rx_exec :: "rx \<Rightarrow> string \<Rightarrow> caps option" where
  "rx_exec r s = rx_search r 0 s"

text \<open>A group of a match: \<open>None\<close> is \<open>undefined\<close>; the second form is a destructuring default.\<close>

definition grp :: "caps \<Rightarrow> string \<Rightarrow> string option" where
  "grp cs n = map_of cs n"

definition grpOr :: "caps \<Rightarrow> string \<Rightarrow> string \<Rightarrow> string" where
  "grpOr cs n d = (case map_of cs n of None \<Rightarrow> d | Some v \<Rightarrow> v)"

definition digit :: rx where
  "digit = Cls ''0123456789''"

definition whitespace :: rx where
  "whitespace = Cls [CHR 0x09, CHR 0x0A, CHR 0x0B, CHR 0x0C, CHR 0x0D, CHR 0x20, CHR 0xA0]"

fun seqs :: "rx list \<Rightarrow> rx" where
  "seqs [] = Eps"
| "seqs (r # rs) = Seq r (seqs rs)"

definition plus :: "rx \<Rightarrow> rx" where
  "plus r = Seq r (Star r)"

text \<open>\<open>r{n}\<close> and \<open>r{0,n}\<close>\<close>

fun rep :: "nat \<Rightarrow> rx \<Rightarrow> rx" where
  "rep 0 r = Eps"
| "rep (Suc n) r = Seq r (rep n r)"

fun upto :: "nat \<Rightarrow> rx \<Rightarrow> rx" where
  "upto 0 r = Eps"
| "upto (Suc n) r = Opt (Seq r (upto n r))"

text \<open>The flag \<open>i\<close>: a letter matches in either case.\<close>

definition bothCases :: "char \<Rightarrow> char list" where
  "bothCases c =
     (let n = (of_char c :: nat)
      in if 65 \<le> n \<and> n \<le> 90 then [c, char_of (n + 32)]
         else if 97 \<le> n \<and> n \<le> 122 then [c, char_of (n - 32)]
         else [c])"

fun ignoreCase :: "rx \<Rightarrow> rx" where
  "ignoreCase (Lit c) = Cls (bothCases c)"
| "ignoreCase (Cls k) = Cls (concat (map bothCases k))"
| "ignoreCase Eps = Eps"
| "ignoreCase (Seq a b) = Seq (ignoreCase a) (ignoreCase b)"
| "ignoreCase (Alt a b) = Alt (ignoreCase a) (ignoreCase b)"
| "ignoreCase (Opt a) = Opt (ignoreCase a)"
| "ignoreCase (Star a) = Star (ignoreCase a)"
| "ignoreCase (Grp n a) = Grp n (ignoreCase a)"
| "ignoreCase (NegLook a) = NegLook (ignoreCase a)"
| "ignoreCase Bol = Bol"
| "ignoreCase Eol = Eol"

section \<open>Numbers read from text\<close>

text \<open>A number of the language: \<open>NaN\<close> or a finite value.\<close>

datatype number = NaN | Num rat

definition isDigit :: "char \<Rightarrow> bool" where
  "isDigit c = (c \<in> set ''0123456789'')"

definition digit_val :: "char \<Rightarrow> nat" where
  "digit_val c = of_char c - 48"

definition digits_val :: "string \<Rightarrow> nat" where
  "digits_val ds = foldl (\<lambda>n c. 10 * n + digit_val c) 0 ds"

text \<open>An optional sign in front of the text: whether it is a minus, and the text after it.\<close>

fun splitSign :: "string \<Rightarrow> bool \<times> string" where
  "splitSign [] = (False, [])"
| "splitSign (c # r) = (if c = CHR ''-'' then (True, r) else if c = CHR ''+'' then (False, r) else (False, c # r))"

definition signed :: "bool \<Rightarrow> rat \<Rightarrow> rat" where
  "signed neg x = (if neg then - x else x)"

text \<open>
  \<open>parseInt(s)\<close>: the longest prefix that is an optionally signed run of digits, \<open>NaN\<close> when
  there is no digit. (A \<open>0x\<close> prefix would be read as hexadecimal; no pattern here lets one
  through.)
\<close>

definition parseInt :: "string \<Rightarrow> number" where
  "parseInt s =
     (case splitSign (trimStart s) of
        (neg, u) \<Rightarrow>
          (let ds = takeWhile isDigit u
           in if ds = [] then NaN else Num (signed neg (of_nat (digits_val ds)))))"

text \<open>
  \<open>parseFloat(s)\<close>: the longest prefix that is an optionally signed decimal, \<open>NaN\<close> when
  there is no digit. (Exponents and \<open>Infinity\<close> are left out; no pattern here lets one
  through.)
\<close>

definition parseFloat :: "string \<Rightarrow> number" where
  "parseFloat s =
     (case splitSign (trimStart s) of
        (neg, u) \<Rightarrow>
          (let ip = takeWhile isDigit u;
               r = dropWhile isDigit u;
               fp = (case r of [] \<Rightarrow> [] | c # r' \<Rightarrow> if c = CHR ''.'' then takeWhile isDigit r' else [])
           in if ip = [] \<and> fp = [] then NaN
              else Num (signed neg (of_nat (digits_val ip) + of_nat (digits_val fp) / 10 ^ length fp))))"

text \<open>
  Unary plus on a string: the whole trimmed text must be a decimal; the empty text is 0.
\<close>

definition toNumber :: "string \<Rightarrow> number" where
  "toNumber s =
     (let t = trim s in
      if t = [] then Num 0
      else case splitSign t of
        (neg, u) \<Rightarrow>
          (let ip = takeWhile isDigit u;
               r = dropWhile isDigit u;
               fp = (case r of [] \<Rightarrow> [] | c # r' \<Rightarrow> if c = CHR ''.'' then takeWhile isDigit r' else []);
               after = (case r of [] \<Rightarrow> [] | c # r' \<Rightarrow> if c = CHR ''.'' then dropWhile isDigit r' else r)
           in if (ip = [] \<and> fp = []) \<or> after \<noteq> [] then NaN
              else Num (signed neg (of_nat (digits_val ip) + of_nat (digits_val fp) / 10 ^ length fp))))"

fun String_number :: "number \<Rightarrow> string" where
  "String_number NaN = ''NaN''"
| "String_number (Num q) = String_num q"

text \<open>\<open>String(x)\<close> of a property that may be absent.\<close>

fun String_field :: "number option \<Rightarrow> string" where
  "String_field None = ''undefined''"
| "String_field (Some n) = String_number n"

text \<open>Arithmetic with \<open>NaN\<close>; \<open>%\<close> takes the sign of the dividend.\<close>

definition Math_trunc :: "rat \<Rightarrow> int" where
  "Math_trunc x = (if x < 0 then \<lceil>x\<rceil> else \<lfloor>x\<rfloor>)"

fun num_add :: "number \<Rightarrow> number \<Rightarrow> number" where
  "num_add (Num a) (Num b) = Num (a + b)"
| "num_add a b = NaN"

fun num_floor_div :: "number \<Rightarrow> rat \<Rightarrow> number" where
  "num_floor_div (Num a) k = Num (of_int \<lfloor>a / k\<rfloor>)"
| "num_floor_div NaN k = NaN"

fun num_rem :: "number \<Rightarrow> rat \<Rightarrow> number" where
  "num_rem (Num a) k = Num (a - k * of_int (Math_trunc (a / k)))"
| "num_rem NaN k = NaN"

fun num_times :: "number \<Rightarrow> rat \<Rightarrow> number" where
  "num_times (Num a) k = Num (a * k)"
| "num_times NaN k = NaN"

text \<open>\<open>x > k\<close>, false for \<open>NaN\<close> and for an absent property.\<close>

fun field_gt :: "number option \<Rightarrow> rat \<Rightarrow> bool" where
  "field_gt (Some (Num a)) k = (a > k)"
| "field_gt f k = False"

text \<open>\<open>parseFloat(x.toFixed(n))\<close>: \<open>x\<close> rounded to \<open>n\<close> decimals, a tie away from zero.\<close>

fun toFixed :: "nat \<Rightarrow> number \<Rightarrow> number" where
  "toFixed n (Num x) = Num (signed (x < 0) (of_int \<lfloor>\<bar>x\<bar> * 10 ^ n + 1 / 2\<rfloor> / 10 ^ n))"
| "toFixed n NaN = NaN"

section \<open>time.ts: patterns and validation\<close>

definition ABSOLUTE_TIME :: rx where
  "ABSOLUTE_TIME =
     seqs [Bol, rep 4 digit, Lit CHR ''-'', rep 3 digit, Lit CHR ''T'', rep 2 digit, Lit CHR '':'',
           rep 2 digit, Lit CHR '':'', rep 2 digit, Opt (Seq (Lit CHR ''.'') (rep 3 digit)), Eol]"

text \<open>What \<open>RELATIVE_TIME\<close> and \<open>EPOCH_TIME\<close> share, after the sign.\<close>

definition doyDurationBody :: "rx list" where
  "doyDurationBody =
     [Opt (Grp ''doy'' (rep 3 digit)), Opt (Lit CHR ''T''), Grp ''hr'' (rep 2 digit), Lit CHR '':'',
      Grp ''mins'' (rep 2 digit), Lit CHR '':'', Opt (Grp ''secs'' (rep 2 digit)), Opt (Lit CHR ''.''),
      Opt (Grp ''ms'' (plus digit)), Eol]"

definition RELATIVE_TIME :: rx where
  "RELATIVE_TIME = seqs (Bol # doyDurationBody)"

definition RELATIVE_SIMPLE :: rx where
  "RELATIVE_SIMPLE = seqs [plus digit, Opt (Seq (Lit CHR ''.'') (plus digit)), Eol]"

definition EPOCH_TIME :: rx where
  "EPOCH_TIME = seqs (Bol # Grp ''sign'' (Opt (Cls ''+-'')) # doyDurationBody)"

definition EPOCH_SIMPLE :: rx where
  "EPOCH_SIMPLE = seqs [Seq Bol (Opt (Cls ''+-'')), plus digit, Opt (Seq (Lit CHR ''.'') (plus digit)), Eol]"

text \<open>
  Modelled from the spec: the enum \<open>TimeTypes\<close> of \<open>./enums/time\<close> is not among the sources;
  the spec lists these five kinds.
\<close>

datatype TimeTypes = ABSOLUTE | EPOCH | RELATIVE | EPOCH_SIMPLE_TYPE | RELATIVE_SIMPLE_TYPE

fun validateTime :: "string \<Rightarrow> TimeTypes \<Rightarrow> bool" where
  "validateTime time ABSOLUTE = (rx_exec ABSOLUTE_TIME time \<noteq> None)"
| "validateTime time EPOCH = (rx_exec EPOCH_TIME time \<noteq> None)"
| "validateTime time RELATIVE = (rx_exec RELATIVE_TIME time \<noteq> None)"
| "validateTime time EPOCH_SIMPLE_TYPE = (rx_exec EPOCH_SIMPLE time \<noteq> None)"
| "validateTime time RELATIVE_SIMPLE_TYPE = (rx_exec RELATIVE_SIMPLE time \<noteq> None)"

section \<open>time.ts: parsed values\<close>

record ParsedDurationString =
  days :: number
  hours :: number
  isNegative :: bool
  microseconds :: number
  milliseconds :: number
  minutes :: number
  seconds :: number
  years :: number

record PartialReturn =
  hour :: number
  min' :: number
  ms :: number
  sec :: number
  time' :: string
  year :: number

record ParsedDoyString = PartialReturn +
  doy :: number

record ParsedYmdString = PartialReturn +
  day :: number
  month :: number

text \<open>What \<open>parseDoyOrYmdTime\<close> returns when it is not \<open>null\<close>.\<close>

datatype Parsed =
    Duration ParsedDurationString
  | Doy ParsedDoyString
  | Ymd ParsedYmdString

text \<open>
  The code casts a \<open>Parsed\<close> value to the variant it expects and reads its properties; a
  property the value does not have is \<open>undefined\<close> (\<open>None\<close>).
\<close>

fun get_days :: "Parsed \<Rightarrow> number option" where
  "get_days (Duration d) = Some (days d)" | "get_days p = None"

fun get_hours :: "Parsed \<Rightarrow> number option" where
  "get_hours (Duration d) = Some (hours d)" | "get_hours p = None"

fun get_minutes :: "Parsed \<Rightarrow> number option" where
  "get_minutes (Duration d) = Some (minutes d)" | "get_minutes p = None"

fun get_seconds :: "Parsed \<Rightarrow> number option" where
  "get_seconds (Duration d) = Some (seconds d)" | "get_seconds p = None"

fun get_milliseconds :: "Parsed \<Rightarrow> number option" where
  "get_milliseconds (Duration d) = Some (milliseconds d)" | "get_milliseconds p = None"

fun get_years :: "Parsed \<Rightarrow> number option" where
  "get_years (Duration d) = Some (years d)" | "get_years p = None"

fun get_isNegative :: "Parsed \<Rightarrow> bool option" where
  "get_isNegative (Duration d) = Some (isNegative d)" | "get_isNegative p = None"

fun get_doy :: "Parsed \<Rightarrow> number option" where
  "get_doy (Doy d) = Some (doy d)" | "get_doy p = None"

fun get_hour :: "Parsed \<Rightarrow> number option" where
  "get_hour (Doy d) = Some (hour d)" | "get_hour (Ymd d) = Some (hour d)" | "get_hour p = None"

fun get_min :: "Parsed \<Rightarrow> number option" where
  "get_min (Doy d) = Some (min' d)" | "get_min (Ymd d) = Some (min' d)" | "get_min p = None"

fun get_sec :: "Parsed \<Rightarrow> number option" where
  "get_sec (Doy d) = Some (sec d)" | "get_sec (Ymd d) = Some (sec d)" | "get_sec p = None"

fun get_ms :: "Parsed \<Rightarrow> number option" where
  "get_ms (Doy d) = Some (ms d)" | "get_ms (Ymd d) = Some (ms d)" | "get_ms p = None"

section \<open>time.ts: parsing\<close>

definition parseDOYDurationTime :: "string \<Rightarrow> ParsedDurationString option" where
  "parseDOYDurationTime doyTime =
     (let isEpoch = validateTime doyTime EPOCH;
          matches = (if isEpoch then rx_exec EPOCH_TIME doyTime else rx_exec RELATIVE_TIME doyTime)
      in case matches of
           None \<Rightarrow> None
         | Some g \<Rightarrow>
             (let sign = grpOr g ''sign'' [];
                  hoursNum = parseInt (grpOr g ''hr'' ''0'');
                  minuteNum = parseInt (grpOr g ''mins'' ''0'');
                  secondsNum = parseInt (grpOr g ''secs'' ''0'');
                  millisecondNum = parseInt (grpOr g ''ms'' ''0'')
              in Some \<lparr> days = parseInt (grpOr g ''doy'' ''0''),
                        hours = hoursNum,
                        isNegative = (sign \<noteq> [] \<and> sign \<noteq> ''+''),
                        microseconds = Num 0,
                        milliseconds = millisecondNum,
                        minutes = minuteNum,
                        seconds = secondsNum,
                        years = Num 0 \<rparr>))"

text \<open>
  The pattern of \<open>parseDoyOrYmdTime\<close>, built for \<open>numDecimals\<close> (at least 1: the language
  refuses the pattern \<open>\d{1,0}\<close>), with the flag \<open>i\<close>.
\<close>

definition doyOrYmdRegex :: "nat \<Rightarrow> rx" where
  "doyOrYmdRegex numDecimals =
     ignoreCase (seqs
       [Bol, Grp ''year'' (rep 4 digit), Lit CHR ''-'',
        Alt (seqs [Grp ''month'' (Alt (Seq (Opt (Lit CHR ''0'')) digit) (Seq (Lit CHR ''1'') (Cls ''012''))),
                   Lit CHR ''-'',
                   Grp ''day'' (Alt (Seq (Opt (Cls ''012'')) digit) (Seq (Lit CHR ''3'') (Cls ''01'')))])
            (Grp ''doy'' (Seq digit (upto 2 digit))),
        Opt (Seq (Lit CHR ''T'')
          (Grp ''time'' (seqs
             [Grp ''hour'' (Alt digit (Seq (Cls ''012'') digit)),
              Opt (Seq (Lit CHR '':'') (Grp ''min'' (Alt digit (Seq (Cls ''012345'') digit)))),
              Opt (seqs [Lit CHR '':'', Grp ''sec'' (Alt digit (Seq (Cls ''012345'') digit)),
                         Opt (Grp ''dec'' (Seq (Lit CHR ''.'') (Seq digit (upto (numDecimals - 1) digit))))])]))),
        Eol])"

definition parseDoyOrYmdTime :: "string \<Rightarrow> nat \<Rightarrow> Parsed option" where
  "parseDoyOrYmdTime dateString numDecimals =
     (case rx_exec (doyOrYmdRegex numDecimals) dateString of
        Some g \<Rightarrow>
          (let msPerSecond = 1000;
               partialReturn =
                 \<lparr> hour = parseInt (grpOr g ''hour'' ''0''),
                   min' = parseInt (grpOr g ''min'' ''0''),
                   ms = toFixed numDecimals (num_times (parseFloat (grpOr g ''dec'' ''.0'')) msPerSecond),
                   sec = parseInt (grpOr g ''sec'' ''0''),
                   time' = grpOr g ''time'' ''00:00:00'',
                   year = parseInt (grpOr g ''year'' []) \<rparr>
           in case grp g ''doy'' of
                Some d \<Rightarrow> Some (Doy (PartialReturn.extend partialReturn (ParsedDoyString.fields (parseInt d))))
              | None \<Rightarrow>
                  Some (Ymd (PartialReturn.extend partialReturn
                          (ParsedYmdString.fields (parseInt (grpOr g ''day'' [])) (parseInt (grpOr g ''month'' []))))))
      | None \<Rightarrow>
          (case parseDOYDurationTime dateString of
             Some doyDuration \<Rightarrow> Some (Duration doyDuration)
           | None \<Rightarrow> None))"

definition validNegationRegex :: rx where
  "validNegationRegex = Opt (Grp ''isNegative'' (Lit CHR ''-''))"

definition validDurationValueRegex :: rx where
  "validDurationValueRegex = seqs [Opt (Cls ''+-''), plus digit, Opt (Seq (Lit CHR ''.'') (plus digit))]"

text \<open>\<open>(?:\s*(?<name>value)suffix)\<close>, the shape of the seven unit patterns.\<close>

definition unitRegex :: "string \<Rightarrow> rx list \<Rightarrow> rx" where
  "unitRegex name suffix = seqs ([Star whitespace, Grp name validDurationValueRegex] @ suffix)"

definition validYearsDurationRegex :: rx where
  "validYearsDurationRegex = unitRegex ''years'' [Lit CHR ''y'']"

definition validDaysDurationRegex :: rx where
  "validDaysDurationRegex = unitRegex ''days'' [Lit CHR ''d'']"

definition validHoursDurationRegex :: rx where
  "validHoursDurationRegex = unitRegex ''hours'' [Lit CHR ''h'']"

definition validMinutesDurationRegex :: rx where
  "validMinutesDurationRegex = unitRegex ''minutes'' [Lit CHR ''m'', NegLook (Lit CHR ''s'')]"

definition validSecondsDurationRegex :: rx where
  "validSecondsDurationRegex = unitRegex ''seconds'' [Lit CHR ''s'']"

definition validMillisecondsDurationRegex :: rx where
  "validMillisecondsDurationRegex = unitRegex ''milliseconds'' [Lit CHR ''m'', Lit CHR ''s'']"

definition validMicrosecondsDurationRegex :: rx where
  "validMicrosecondsDurationRegex = unitRegex ''microseconds'' [Lit CHR ''u'', Lit CHR ''s'']"

definition fullValidDurationRegex :: rx where
  "fullValidDurationRegex =
     seqs [Bol, validNegationRegex, Opt validYearsDurationRegex, Opt validDaysDurationRegex,
           Opt validHoursDurationRegex, Opt validMinutesDurationRegex, Opt validSecondsDurationRegex,
           Opt validMillisecondsDurationRegex, Opt validMicrosecondsDurationRegex, Eol]"

definition bareNumberRegex :: rx where
  "bareNumberRegex =
     seqs [Bol, Grp ''sign'' (Opt (Cls ''+-'')), Grp ''int'' (plus digit),
           Opt (Grp ''decimal'' (Seq (Lit CHR ''.'') (plus digit))), Eol]"

datatype Units = UDays | UHours | UMinutes | USeconds | UMilliseconds | UMicroseconds

text \<open>
  The third path of \<open>parseDurationString\<close>: the number shifted into its unit, then each
  field carried into the next.
\<close>

definition normalizeBare :: "Units \<Rightarrow> string \<Rightarrow> number \<Rightarrow> number \<Rightarrow> ParsedDurationString" where
  "normalizeBare units sign num decimalNum =
     (let microsecond0 = (case units of UMicroseconds \<Rightarrow> num | UMilliseconds \<Rightarrow> decimalNum | _ \<Rightarrow> Num 0);
          millisecond0 = (case units of UMilliseconds \<Rightarrow> num | USeconds \<Rightarrow> decimalNum | _ \<Rightarrow> Num 0);
          second0 = (case units of USeconds \<Rightarrow> num | UMinutes \<Rightarrow> decimalNum | _ \<Rightarrow> Num 0);
          minute0 = (case units of UMinutes \<Rightarrow> num | UHours \<Rightarrow> decimalNum | _ \<Rightarrow> Num 0);
          hour0 = (case units of UHours \<Rightarrow> num | UDays \<Rightarrow> decimalNum | _ \<Rightarrow> Num 0);
          day0 = (case units of UDays \<Rightarrow> num | _ \<Rightarrow> Num 0);
          year0 = Num 0;
          millisecond1 = num_add millisecond0 (num_floor_div microsecond0 1000000);
          microsecond = num_rem microsecond0 1000000;
          second1 = num_add second0 (num_floor_div millisecond1 1000);
          millisecond = num_rem millisecond1 1000;
          minute1 = num_add minute0 (num_floor_div second1 60);
          second = num_rem second1 60;
          hour1 = num_add hour0 (num_floor_div minute1 60);
          minute = num_rem minute1 60;
          day1 = num_add day0 (num_floor_div hour1 24);
          hour = num_rem hour1 24;
          year = num_add year0 (num_floor_div day1 365);
          day = num_rem day1 365
      in \<lparr> days = day, hours = hour, isNegative = (sign \<noteq> [] \<and> sign \<noteq> ''+''),
           microseconds = microsecond, milliseconds = millisecond, minutes = minute,
           seconds = second, years = year \<rparr>)"

definition parseDurationString :: "string \<Rightarrow> Units \<Rightarrow> error + Parsed" where
  "parseDurationString durationString units =
     (case rx_exec fullValidDurationRegex durationString of
        Some g \<Rightarrow>
          Inr (Duration
            \<lparr> days = parseFloat (grpOr g ''days'' ''0''),
              hours = parseFloat (grpOr g ''hours'' ''0''),
              isNegative = (grpOr g ''isNegative'' [] \<noteq> []),
              microseconds = parseFloat (grpOr g ''microseconds'' ''0''),
              milliseconds = parseFloat (grpOr g ''milliseconds'' ''0''),
              minutes = parseFloat (grpOr g ''minutes'' ''0''),
              seconds = parseFloat (grpOr g ''seconds'' ''0''),
              years = parseFloat (grpOr g ''years'' ''0'') \<rparr>)
      | None \<Rightarrow>
          (case parseDoyOrYmdTime durationString 6 of
             Some durationTime \<Rightarrow> Inr durationTime
           | None \<Rightarrow>
               (case rx_exec bareNumberRegex durationString of
                  Some g \<Rightarrow>
                    (let sign = grpOr g ''sign'' [];
                         int' = grpOr g ''int'' ''0'';
                         decimal = grpOr g ''decimal'' ''0'';
                         num = parseInt int';
                         decimalNum = (if decimal \<noteq> [] then parseFloat decimal else Num 0)
                     in Inr (Duration (normalizeBare units sign num decimalNum)))
                | None \<Rightarrow> Inl InvalidTimeFormat)))"

section \<open>Dates of the language\<close>

text \<open>
  Time values are milliseconds since the epoch, in UTC. The day number of the first day of
  a year, and the year of a day number (the largest year that starts on or before it, found
  by counting from 1970), are those of the language's definition.
\<close>

definition msPerDay :: int where
  "msPerDay = 86400000"

definition DayFromYear :: "int \<Rightarrow> int" where
  "DayFromYear y = 365 * (y - 1970) + (y - 1969) div 4 - (y - 1901) div 100 + (y - 1601) div 400"

lemma div_step:
  fixes x k :: int
  assumes "0 < k"
  shows "x div k \<le> (x + 1) div k \<and> (x + 1) div k \<le> x div k + 1"
proof
  show "x div k \<le> (x + 1) div k" using assms by (simp add: zdiv_mono1)
  have "(x + 1) div k \<le> (x + k) div k" using assms by (intro zdiv_mono1) auto
  also have "\<dots> = x div k + 1" using assms by simp
  finally show "(x + 1) div k \<le> x div k + 1" .
qed

lemma year_lin:
  fixes a a' b b' c c' y :: int
  assumes "a \<le> a' \<and> a' \<le> a + 1" "b \<le> b' \<and> b' \<le> b + 1" "c \<le> c' \<and> c' \<le> c + 1"
  shows "365 * (y - 1970) + a - b + c + 364 \<le> 365 * (y + 1 - 1970) + a' - b' + c'
       \<and> 365 * (y + 1 - 1970) + a' - b' + c' \<le> 365 * (y - 1970) + a - b + c + 367"
  using assms by simp

lemma DayFromYear_step: "DayFromYear y + 364 \<le> DayFromYear (y + 1) \<and> DayFromYear (y + 1) \<le> DayFromYear y + 367"
proof -
  have a: "(y - 1969) div 4 \<le> (y + 1 - 1969) div 4 \<and> (y + 1 - 1969) div 4 \<le> (y - 1969) div 4 + 1"
    using div_step [of 4 "y - 1969"] by (simp add: algebra_simps)
  have b: "(y - 1901) div 100 \<le> (y + 1 - 1901) div 100 \<and> (y + 1 - 1901) div 100 \<le> (y - 1901) div 100 + 1"
    using div_step [of 100 "y - 1901"] by (simp add: algebra_simps)
  have c: "(y - 1601) div 400 \<le> (y + 1 - 1601) div 400 \<and> (y + 1 - 1601) div 400 \<le> (y - 1601) div 400 + 1"
    using div_step [of 400 "y - 1601"] by (simp add: algebra_simps)
  show ?thesis unfolding DayFromYear_def by (rule year_lin [OF a b c])
qed

function yearUp :: "int \<Rightarrow> int \<Rightarrow> int" where
  "yearUp y d = (if DayFromYear (y + 1) \<le> d then yearUp (y + 1) d else y)"
  by pat_completeness auto
termination
proof (relation "measure (\<lambda>(y, d). nat (d + 1 - DayFromYear (y + 1)))")
  show "wf (measure (\<lambda>(y, d). nat (d + 1 - DayFromYear (y + 1))))" by simp
next
  fix y d :: int
  assume "DayFromYear (y + 1) \<le> d"
  then show "((y + 1, d), (y, d)) \<in> measure (\<lambda>(y, d). nat (d + 1 - DayFromYear (y + 1)))"
    using DayFromYear_step [of "y + 1"] by simp
qed

function yearDown :: "int \<Rightarrow> int \<Rightarrow> int" where
  "yearDown y d = (if d < DayFromYear y then yearDown (y - 1) d else y)"
  by pat_completeness auto
termination
proof (relation "measure (\<lambda>(y, d). nat (DayFromYear y - d))")
  show "wf (measure (\<lambda>(y, d). nat (DayFromYear y - d)))" by simp
next
  fix y d :: int
  assume "d < DayFromYear y"
  then show "((y - 1, d), (y, d)) \<in> measure (\<lambda>(y, d). nat (DayFromYear y - d))"
    using DayFromYear_step [of "y - 1"] by simp
qed

definition Day :: "int \<Rightarrow> int" where
  "Day t = t div msPerDay"

definition YearFromTime :: "int \<Rightarrow> int" where
  "YearFromTime t = (if 0 \<le> Day t then yearUp 1970 (Day t) else yearDown 1969 (Day t))"

text \<open>A date object: its time value, or \<open>None\<close> for an invalid date.\<close>

type_synonym Date = "int option"

definition maxTime :: int where
  "maxTime = 8640000000000000"

fun new_Date :: "number \<Rightarrow> Date" where
  "new_Date NaN = None"
| "new_Date (Num v) = (if \<bar>Math_trunc v\<bar> \<le> maxTime then Some (Math_trunc v) else None)"

text \<open>
  \<open>Date.UTC(year, 0, date, hours, minutes, seconds, ms)\<close>: every call in \<open>time.ts\<close> passes
  month 0. A year from 0 to 99 stands for 1900 to 1999.
\<close>

definition Date_UTC :: "number \<Rightarrow> number \<Rightarrow> number \<Rightarrow> number \<Rightarrow> number \<Rightarrow> number \<Rightarrow> number" where
  "Date_UTC year' date hours' minutes' seconds' msecs =
     (case year' of NaN \<Rightarrow> NaN | Num y \<Rightarrow>
      case date of NaN \<Rightarrow> NaN | Num dt \<Rightarrow>
      case hours' of NaN \<Rightarrow> NaN | Num h \<Rightarrow>
      case minutes' of NaN \<Rightarrow> NaN | Num m \<Rightarrow>
      case seconds' of NaN \<Rightarrow> NaN | Num s \<Rightarrow>
      case msecs of NaN \<Rightarrow> NaN | Num milli \<Rightarrow>
        (let yi = Math_trunc y;
             yr = (if 0 \<le> yi \<and> yi \<le> 99 then 1900 + yi else yi);
             tv = (DayFromYear yr + Math_trunc dt - 1) * msPerDay
                  + (Math_trunc h * 3600000 + Math_trunc m * 60000 + Math_trunc s * 1000 + Math_trunc milli)
         in if \<bar>tv\<bar> \<le> maxTime then Num (of_int tv) else NaN))"

fun dateField :: "(int \<Rightarrow> int) \<Rightarrow> Date \<Rightarrow> number" where
  "dateField f None = NaN"
| "dateField f (Some t) = Num (of_int (f t))"

definition getTime :: "Date \<Rightarrow> number" where
  "getTime date = dateField (\<lambda>t. t) date"

definition getUTCFullYear :: "Date \<Rightarrow> number" where
  "getUTCFullYear date = dateField YearFromTime date"

definition getUTCHours :: "Date \<Rightarrow> number" where
  "getUTCHours date = dateField (\<lambda>t. (t div 3600000) mod 24) date"

definition getUTCMinutes :: "Date \<Rightarrow> number" where
  "getUTCMinutes date = dateField (\<lambda>t. (t div 60000) mod 60) date"

definition getUTCSeconds :: "Date \<Rightarrow> number" where
  "getUTCSeconds date = dateField (\<lambda>t. (t div 1000) mod 60) date"

definition getUTCMilliseconds :: "Date \<Rightarrow> number" where
  "getUTCMilliseconds date = dateField (\<lambda>t. t mod 1000) date"

text \<open>
  \<open>getMilliseconds\<close> reads local time; a time zone's offset is a whole number of seconds,
  so the milliseconds are those of UTC.
\<close>

definition getMilliseconds :: "Date \<Rightarrow> number" where
  "getMilliseconds date = getUTCMilliseconds date"

fun num_sub :: "number \<Rightarrow> number \<Rightarrow> number" where
  "num_sub (Num a) (Num b) = Num (a - b)"
| "num_sub a b = NaN"

section \<open>time.ts: formatting\<close>

text \<open>\<open>Math.max(1, Math.floor(x))\<close> of a property that may be absent.\<close>

fun maxOneFloor :: "number option \<Rightarrow> number" where
  "maxOneFloor (Some (Num x)) = Num (max 1 (of_int \<lfloor>x\<rfloor>))"
| "maxOneFloor f = NaN"

text \<open>\<open>x * k\<close> and \<open>x - k\<close> of a property that may be absent.\<close>

fun field_times :: "number option \<Rightarrow> rat \<Rightarrow> number" where
  "field_times (Some n) k = num_times n k"
| "field_times None k = NaN"

fun field_minus :: "number option \<Rightarrow> rat \<Rightarrow> number" where
  "field_minus (Some n) k = num_sub n (Num k)"
| "field_minus None k = NaN"

definition convertDurationToDoy :: "Parsed \<Rightarrow> string" where
  "convertDurationToDoy duration =
     (let years' = (if get_years duration = Some (Num 0) then ''1970''
                    else padStart 4 CHR ''0'' (String_field (get_years duration)));
          day' = maxOneFloor (get_days duration);
          hours' = padStart 2 CHR ''0'' (String_field (get_hours duration));
          minutes' = padStart 2 CHR ''0'' (String_field (get_minutes duration));
          seconds' = padStart 2 CHR ''0'' (String_field (get_seconds duration));
          milliseconds' = padStart 3 CHR ''0'' (String_number (field_times (get_milliseconds duration) 1000))
      in years' @ ''-'' @ padStart 3 CHR ''0'' (String_number day') @ ''T'' @ hours' @ '':'' @ minutes'
           @ '':'' @ seconds' @ ''.'' @ milliseconds')"

definition getDoy :: "Date \<Rightarrow> number" where
  "getDoy date =
     (let start = Date_UTC (getUTCFullYear date) (Num 0) (Num 0) (Num 0) (Num 0) (Num 0);
          diff = num_sub (getTime date) start;
          oneDay = 86400000
      in num_floor_div diff oneDay)"

record DoyTimeComponents =
  dc_doy :: string
  dc_hours :: string
  dc_mins :: string
  dc_msecs :: string
  dc_secs :: string
  dc_year :: string

definition getDoyTimeComponents :: "Date \<Rightarrow> DoyTimeComponents" where
  "getDoyTimeComponents date =
     \<lparr> dc_doy = padStart 3 CHR ''0'' (String_number (getDoy date)),
       dc_hours = padStart 2 CHR ''0'' (String_number (getUTCHours date)),
       dc_mins = padStart 2 CHR ''0'' (String_number (getUTCMinutes date)),
       dc_msecs = padStart 3 CHR ''0'' (String_number (getUTCMilliseconds date)),
       dc_secs = padStart 2 CHR ''0'' (String_number (getUTCSeconds date)),
       dc_year = String_number (getUTCFullYear date) \<rparr>"

definition getDoyTime :: "Date \<Rightarrow> bool \<Rightarrow> string" where
  "getDoyTime date includeMsecs =
     (let c = getDoyTimeComponents date;
          doyTimestamp = dc_year c @ ''-'' @ dc_doy c @ ''T'' @ dc_hours c @ '':'' @ dc_mins c @ '':'' @ dc_secs c
      in if includeMsecs \<and> field_gt (Some (getMilliseconds date)) 0
         then doyTimestamp @ ''.'' @ dc_msecs c
         else doyTimestamp)"

definition unixEpochRegex :: rx where
  "unixEpochRegex =
     seqs [Grp ''1'' (rep 4 digit), Lit CHR ''-'', Grp ''2'' (rep 3 digit), Lit CHR ''T'',
           Grp ''3'' (rep 2 digit), Lit CHR '':'', Grp ''4'' (rep 2 digit), Lit CHR '':'',
           Grp ''5'' (rep 2 digit), Opt (Lit CHR ''.''), Opt (Grp ''6'' (rep 3 digit))]"

definition getUnixEpochTime :: "string \<Rightarrow> number" where
  "getUnixEpochTime doyTimestamp =
     (case rx_exec unixEpochRegex doyTimestamp of
        Some g \<Rightarrow>
          Date_UTC (toNumber (grpOr g ''1'' [])) (toNumber (grpOr g ''2'' [])) (toNumber (grpOr g ''3'' []))
                   (toNumber (grpOr g ''4'' [])) (toNumber (grpOr g ''5'' [])) (toNumber (grpOr g ''6'' ''0''))
      | None \<Rightarrow> Num 0)"

definition getBalancedDuration :: "string \<Rightarrow> error + string" where
  "getBalancedDuration time =
     (case parseDurationString time USeconds of
        Inl e \<Rightarrow> Inl e
      | Inr duration \<Rightarrow>
          (let balancedTime = getDoyTime (new_Date (getUnixEpochTime (convertDurationToDoy duration))) True
           in case parseDoyOrYmdTime balancedTime 6 of
                None \<Rightarrow> Inl TypeError
              | Some parsedBalancedTime \<Rightarrow>
                  (let shouldIncludeDay = (field_gt (get_days duration) 0 \<or> field_gt (get_doy parsedBalancedTime) 1);
                       sign = (if get_isNegative duration = Some True then ''-'' else []);
                       day' = (if shouldIncludeDay
                               then padStart 3 CHR ''0''
                                      (String_number (field_minus (get_doy parsedBalancedTime)
                                         (if field_gt (get_days duration) 0 then 0 else 1))) @ ''T''
                               else []);
                       hour' = padStart 2 CHR ''0'' (String_field (get_hour parsedBalancedTime));
                       minutes' = padStart 2 CHR ''0'' (String_field (get_min parsedBalancedTime));
                       seconds' = padStart 2 CHR ''0'' (String_field (get_sec parsedBalancedTime));
                       milliseconds' = padStart 3 CHR ''0'' (String_field (get_ms parsedBalancedTime))
                   in Inr (sign @ day' @ hour' @ '':'' @ minutes' @ '':'' @ seconds' @ ''.'' @ milliseconds'))))"

section \<open>Notions and examples for the theorems\<close>


definition doc_lgo :: SeqJson where
  "doc_lgo = \<lparr> seq_id = ''s'', parameters = None, locals = None,
               metadata = Some [(''lgo'', JBool True), (''author'', JStr ''me'')],
               steps = None, immediate_commands = None, hardware_commands = None, requests = None \<rparr>"








text \<open>A variable whose list of allowable ranges is present and empty, and that has no allowable values.\<close>

definition var_empty_ranges :: VariableDeclaration where
  "var_empty_ranges =
     \<lparr> var_name = ''x'', var_type = None, enum_name = None, allowable_ranges = Some [],
       allowable_values = None \<rparr>"

text \<open>
  A bare signed decimal number, in the words of the specification: an optional leading
  sign, then digits, then an optional decimal fraction, and nothing else.
\<close>

definition bareSignedDecimal :: "string \<Rightarrow> bool" where
  "bareSignedDecimal t =
     (case splitSign t of
        (neg, u) \<Rightarrow>
          (let ip = takeWhile isDigit u; r = dropWhile isDigit u
           in ip \<noteq> [] \<and> (r = [] \<or> (hd r = CHR ''.'' \<and> tl r \<noteq> [] \<and> list_all isDigit (tl r)))))"

text \<open>
  Two properties of a pattern that can be read off it: every character it can consume is
  in a given set, and it cannot match without consuming a character.
\<close>

fun chars_in :: "char set \<Rightarrow> rx \<Rightarrow> bool" where
  "chars_in C (Lit c) = (c \<in> C)"
| "chars_in C (Cls k) = (set k \<subseteq> C)"
| "chars_in C Eps = True"
| "chars_in C (Seq a b) = (chars_in C a \<and> chars_in C b)"
| "chars_in C (Alt a b) = (chars_in C a \<and> chars_in C b)"
| "chars_in C (Opt a) = chars_in C a"
| "chars_in C (Star a) = chars_in C a"
| "chars_in C (Grp n a) = chars_in C a"
| "chars_in C (NegLook a) = True"
| "chars_in C Bol = True"
| "chars_in C Eol = True"

fun consuming :: "rx \<Rightarrow> bool" where
  "consuming (Lit c) = True"
| "consuming (Cls k) = True"
| "consuming (Seq a b) = (consuming a \<or> consuming b)"
| "consuming (Alt a b) = (consuming a \<and> consuming b)"
| "consuming (Grp n a) = consuming a"
| "consuming r = False"

text \<open>
  A pattern is sound for a property of named captures when the text that each of its
  groups captures has the property.
\<close>

definition captures :: "(string \<Rightarrow> string \<Rightarrow> bool) \<Rightarrow> string \<Rightarrow> rx \<Rightarrow> bool" where
  "captures Q n a = (\<forall>p s cs p' s' cs'. (p', s', cs') \<in> set (rxm a p s cs) \<longrightarrow> Q n (take (p' - p) s))"

fun sound :: "(string \<Rightarrow> string \<Rightarrow> bool) \<Rightarrow> rx \<Rightarrow> bool" where
  "sound Q (Seq a b) = (sound Q a \<and> sound Q b)"
| "sound Q (Alt a b) = (sound Q a \<and> sound Q b)"
| "sound Q (Opt a) = sound Q a"
| "sound Q (Star a) = sound Q a"
| "sound Q (Grp n a) = (sound Q a \<and> captures Q n a)"
| "sound Q (NegLook a) = sound Q a"
| "sound Q r = True"

definition caps_sat :: "(string \<Rightarrow> string \<Rightarrow> bool) \<Rightarrow> caps \<Rightarrow> bool" where
  "caps_sat Q cs = (\<forall>c \<in> set cs. Q (fst c) (snd c))"

text \<open>A run of digits that is not empty; a point followed by such a run.\<close>

definition digitRun :: "string \<Rightarrow> bool" where
  "digitRun v = (v \<noteq> [] \<and> set v \<subseteq> set ''0123456789'')"

definition pointRun :: "string \<Rightarrow> bool" where
  "pointRun v = (\<exists>w. v = CHR ''.'' # w \<and> digitRun w)"

section \<open>Properties of the serializer\<close>

subsection \<open>Trimming\<close>



lemma trimEnd_idem: "trimEnd (trimEnd s) = trimEnd s"
proof (cases "dropWhile isWhiteSpace (rev s)")
  case Nil
  then show ?thesis by (simp add: trimEnd_def)
next
  case (Cons c r)
  then have "\<not> isWhiteSpace c" using hd_dropWhile [of isWhiteSpace "rev s"] by auto
  then show ?thesis using Cons by (simp add: trimEnd_def)
qed




subsection \<open>Joining lines\<close>

lemma join_append_sep: "xs \<noteq> [] \<Longrightarrow> join sep xs @ sep = concat (map (\<lambda>x. x @ sep) xs)"
  by (induction sep xs rule: join.induct) simp_all

lemma join_Nil_iff: "\<forall>x \<in> set xs. x \<noteq> [] \<Longrightarrow> (join sep xs = []) = (xs = [])"
  by (induction sep xs rule: join.induct) simp_all

lemma seqJsonMetadataToSequence_lines:
  "seqJsonMetadataToSequence md = concat (map (\<lambda>kv. metadataLine kv @ nl) md)"
proof (cases "md = []")
  case True
  then show ?thesis by (simp add: seqJsonMetadataToSequence_def)
next
  case False
  have "\<forall>x \<in> set (map metadataLine md). x \<noteq> []" by (simp add: metadataLine_def)
  then have "join nl (map metadataLine md) \<noteq> []" using False join_Nil_iff by fastforce
  then show ?thesis
    using False join_append_sep [of "map metadataLine md" nl]
    by (simp add: seqJsonMetadataToSequence_def Let_def comp_def)
qed

subsection \<open>The metadata without the reserved key\<close>

lemma setKey_fresh: "k \<notin> fst ` set obj \<Longrightarrow> setKey k v obj = obj @ [(k, v)]"
  by (induction obj) auto

lemma fold_setKey_distinct:
  "distinct (map fst xs) \<Longrightarrow> fst ` set obj \<inter> fst ` set xs = {} \<Longrightarrow>
   fold (\<lambda>kv obj. setKey (fst kv) (snd kv) obj) xs obj = obj @ xs"
proof (induction xs arbitrary: obj)
  case Nil
  then show ?case by simp
next
  case (Cons x xs)
  have fresh: "fst x \<notin> fst ` set obj" using Cons.prems(2) by auto
  have "fst ` set (obj @ [x]) \<inter> fst ` set xs = {}" using Cons.prems by auto
  then show ?case using Cons.IH [of "obj @ [x]"] Cons.prems(1) fresh
    by (simp add: setKey_fresh)
qed

lemma withoutLgo_filter:
  "distinct (map fst md) \<Longrightarrow> withoutLgo md = filter (\<lambda>kv. fst kv \<noteq> ''lgo'') md"
  unfolding withoutLgo_def
  using fold_setKey_distinct [of "filter (\<lambda>kv. fst kv \<noteq> ''lgo'') md" "[]"]
  by (simp add: distinct_map_filter)

subsection \<open>Pushing onto the list of sections\<close>

text \<open>Each loop only appends to the list it is given.\<close>

lemma fold_push_append:
  assumes step: "\<And>a seqn lg. f a (seqn, lg) = (seqn @ fst (f a ([], lg)), snd (f a ([], lg)))"
  shows "fold f xs (seqn, lg) = (seqn @ fst (fold f xs ([], lg)), snd (fold f xs ([], lg)))"
proof (induction xs arbitrary: seqn lg)
  case Nil
  then show ?case by simp
next
  case (Cons a xs)
  obtain s2 l2 where a2: "f a ([], lg) = (s2, l2)" by fastforce
  have a1: "f a (seqn, lg) = (seqn @ s2, l2)" using step [of a seqn lg] a2 by simp
  show ?case
    using Cons.IH [of "seqn @ s2" l2] Cons.IH [of s2 l2] a1 a2 by simp
qed

lemma pushStep_append: "pushStep a (seqn, lg) = (seqn @ fst (pushStep a ([], lg)), snd (pushStep a ([], lg)))"
  by (cases a) (auto split: prod.splits)

lemma pushImmediate_append:
  "pushImmediate a (seqn, lg) = (seqn @ fst (pushImmediate a ([], lg)), snd (pushImmediate a ([], lg)))"
  by (auto simp: Let_def split: prod.splits)

lemma pushHardware_append:
  "pushHardware a (seqn, lg) = (seqn @ fst (pushHardware a ([], lg)), snd (pushHardware a ([], lg)))"
  by (auto simp: Let_def split: prod.splits)

lemma pushRequest_append:
  "pushRequest a (seqn, lg) = (seqn @ fst (pushRequest a ([], lg)), snd (pushRequest a ([], lg)))"
  by (auto split: prod.splits)

lemma stepsSection_append:
  "stepsSection d (seqn, lg) = (seqn @ fst (stepsSection d ([], lg)), snd (stepsSection d ([], lg)))"
  using fold_push_append [of pushStep _ "seqn @ [nl]" lg, OF pushStep_append]
    fold_push_append [of pushStep _ "[nl]" lg, OF pushStep_append]
  by (simp split: option.splits)

lemma immediateSection_append:
  "immediateSection d (seqn, lg) = (seqn @ fst (immediateSection d ([], lg)), snd (immediateSection d ([], lg)))"
  using fold_push_append [of pushImmediate _ "seqn @ [nl] @ [''@IMMEDIATE'' @ nl]" lg, OF pushImmediate_append]
    fold_push_append [of pushImmediate _ "[nl] @ [''@IMMEDIATE'' @ nl]" lg, OF pushImmediate_append]
  by (simp split: option.splits)

lemma hardwareSection_append:
  "hardwareSection d (seqn, lg) = (seqn @ fst (hardwareSection d ([], lg)), snd (hardwareSection d ([], lg)))"
  using fold_push_append [of pushHardware _ "seqn @ [nl] @ [''@HARDWARE'' @ nl]" lg, OF pushHardware_append]
    fold_push_append [of pushHardware _ "[nl] @ [''@HARDWARE'' @ nl]" lg, OF pushHardware_append]
  by (simp split: option.splits)

lemma requestsSection_append:
  "requestsSection d (seqn, lg) = (seqn @ fst (requestsSection d ([], lg)), snd (requestsSection d ([], lg)))"
  using fold_push_append [of pushRequest _ seqn lg, OF pushRequest_append]
  by (simp split: option.splits)

lemma bodySections_append:
  "bodySections d seqn = (seqn @ fst (bodySections d []), snd (bodySections d []))"
proof -
  obtain s5 l5 where e5: "stepsSection d ([], []) = (s5, l5)" by fastforce
  obtain s6 l6 where e6: "immediateSection d (s5, l5) = (s6, l6)" by fastforce
  obtain s7 l7 where e7: "hardwareSection d (s6, l6) = (s7, l7)" by fastforce
  obtain s8 l8 where e8: "requestsSection d (s7, l7) = (s8, l8)" by fastforce
  have f5: "stepsSection d (seqn, []) = (seqn @ s5, l5)"
    using stepsSection_append [of d seqn "[]"] e5 by simp
  have f6: "immediateSection d (seqn @ s5, l5) = (seqn @ s6, l6)"
    using immediateSection_append [of d "seqn @ s5" l5] immediateSection_append [of d s5 l5] e6 by simp
  have f7: "hardwareSection d (seqn @ s6, l6) = (seqn @ s7, l7)"
    using hardwareSection_append [of d "seqn @ s6" l6] hardwareSection_append [of d s6 l6] e7 by simp
  have f8: "requestsSection d (seqn @ s7, l7) = (seqn @ s8, l8)"
    using requestsSection_append [of d "seqn @ s7" l7] requestsSection_append [of d s7 l7] e8 by simp
  show ?thesis by (simp only: bodySections_def e5 e6 e7 e8 f5 f6 f7 f8 fst_conv snd_conv)
qed


subsection \<open>Variable declarations\<close>

lemma trim_no_leading: "s \<noteq> [] \<Longrightarrow> \<not> isWhiteSpace (hd s) \<Longrightarrow> trim s = trimEnd s"
  by (cases s) (simp_all add: trim_def trimStart_def)

text \<open>
  C9, as amended. An INPUT_PARAMS or LOCALS block is the begin line, one line for each
  variable and the end line, with white space at the end of the last variable's line
  removed. A variable's line is its name, its type and its enum name when it has them,
  then: nothing more when both the allowable-ranges field and the allowable-values field
  are absent; the empty placeholder quote and the quoted comma-joined values when only the
  values are present; when the ranges field is present, one quote holding the
  comma-joined \<open>min...max\<close> pairs (an empty quote when the list is empty), followed by the
  quoted comma-joined values when those are present too.
\<close>

theorem C9_variable_block:
  "seqJsonVariableToSequence variables blockType =
     trimEnd (''@'' @ blockType @ ''_BEGIN'' @ nl
       @ join nl (map (\<lambda>v.
           var_name v
           @ (case var_type v of None \<Rightarrow> [] | Some w \<Rightarrow> if w = [] then [] else '' '' @ w)
           @ (case enum_name v of None \<Rightarrow> [] | Some w \<Rightarrow> if w = [] then [] else '' '' @ w)
           @ (case allowable_ranges v of
                None \<Rightarrow>
                  (case allowable_values v of
                     None \<Rightarrow> []
                   | Some vals \<Rightarrow> '' '' @ dq @ dq @ '' '' @ dq @ join '','' (map String_prim vals) @ dq)
              | Some ranges \<Rightarrow>
                  '' '' @ dq
                  @ join '','' (map (\<lambda>r. String_num (range_min r) @ ''...'' @ String_num (range_max r)) ranges)
                  @ dq
                  @ (case allowable_values v of
                       None \<Rightarrow> []
                     | Some vals \<Rightarrow> '' '' @ dq @ join '','' (map String_prim vals) @ dq)))
         variables))
     @ nl @ ''@'' @ blockType @ ''_END'' @ nl"
proof -
  have line: "variableToSequence = (\<lambda>v.
           var_name v
           @ (case var_type v of None \<Rightarrow> [] | Some w \<Rightarrow> if w = [] then [] else '' '' @ w)
           @ (case enum_name v of None \<Rightarrow> [] | Some w \<Rightarrow> if w = [] then [] else '' '' @ w)
           @ (case allowable_ranges v of
                None \<Rightarrow>
                  (case allowable_values v of
                     None \<Rightarrow> []
                   | Some vals \<Rightarrow> '' '' @ dq @ dq @ '' '' @ dq @ join '','' (map String_prim vals) @ dq)
              | Some ranges \<Rightarrow>
                  '' '' @ dq
                  @ join '','' (map (\<lambda>r. String_num (range_min r) @ ''...'' @ String_num (range_max r)) ranges)
                  @ dq
                  @ (case allowable_values v of
                       None \<Rightarrow> []
                     | Some vals \<Rightarrow> '' '' @ dq @ join '','' (map String_prim vals) @ dq)))"
    by (rule ext) (simp add: variableToSequence_def Let_def split: option.splits)
  have "\<And>rest. trim (''@'' @ rest) = trimEnd (''@'' @ rest)"
    by (rule trim_no_leading) (simp_all add: isWhiteSpace_def)
  then show ?thesis
    unfolding seqJsonVariableToSequence_def line by simp
qed

text \<open>
  C9 as stated fails: this variable has no allowable ranges (its list of ranges is empty)
  and no allowable values, and its line carries the empty quote all the same.
\<close>

theorem C9_counterexample:
  "allowable_ranges var_empty_ranges = Some [] \<and> allowable_values var_empty_ranges = None
   \<and> seqJsonVariableToSequence [var_empty_ranges] ''LOCALS''
       = ''@LOCALS_BEGIN'' @ nl @ ''x '' @ dq @ dq @ nl @ ''@LOCALS_END'' @ nl"
  by (simp add: var_empty_ranges_def seqJsonVariableToSequence_def variableToSequence_def
        trim_def trimStart_def trimEnd_def isWhiteSpace_def dq_def nl_def)

subsection \<open>Metadata and the load-and-go line\<close>

text \<open>
  C8. For a document with a metadata mapping (its keys distinct, as an object's are), the
  text is: the sections before the metadata; one \<open>@METADATA\<close> line for each entry whose key
  is not \<open>lgo\<close>, in order, the key quote-escaped and the value as JSON; the line
  \<open>@LOAD_AND_GO\<close> exactly when the value of \<open>lgo\<close> is truthy; the remaining sections. No
  line is printed for the key \<open>lgo\<close>.
\<close>

theorem C8_metadata_without_lgo:
  assumes "metadata d = Some md" and "distinct (map fst md)"
  shows "seqJsonToSeqn d =
     Inr (concat (headerSections d)
          @ concat (map (\<lambda>kv. ''@METADATA '' @ quoteEscape (fst kv) @ '' '' @ JSON_stringify (snd kv) @ nl)
                        (filter (\<lambda>kv. fst kv \<noteq> ''lgo'') md))
          @ (if truthy (map_of md ''lgo'') then nl @ ''@LOAD_AND_GO'' else [])
          @ concat (fst (bodySections d [])),
          snd (bodySections d []))"
proof -
  have lines: "seqJsonMetadataToSequence (withoutLgo md)
      = concat (map (\<lambda>kv. ''@METADATA '' @ quoteEscape (fst kv) @ '' '' @ JSON_stringify (snd kv) @ nl)
                    (filter (\<lambda>kv. fst kv \<noteq> ''lgo'') md))"
    using assms(2) by (simp add: seqJsonMetadataToSequence_lines withoutLgo_filter metadataLine_def)
  show ?thesis
    unfolding seqJsonToSeqn_def Let_def assms(1) option.case
    using bodySections_append [of d "headerSections d @ [seqJsonMetadataToSequence (withoutLgo md)] @ [nl @ ''@LOAD_AND_GO'']"]
      bodySections_append [of d "headerSections d @ [seqJsonMetadataToSequence (withoutLgo md)]"]
    by (simp add: lines)
qed

theorem C8_metadata_without_lgo_witness:
  "metadata doc_lgo = Some [(''lgo'', JBool True), (''author'', JStr ''me'')]
   \<and> distinct (map fst [(''lgo'', JBool True), (''author'', JStr ''me'')])
   \<and> seqJsonToSeqn doc_lgo =
       Inr (''@ID '' @ dq @ ''s'' @ dq @ nl @ ''@METADATA '' @ dq @ ''author'' @ dq @ '' '' @ dq @ ''me'' @ dq @ nl
            @ nl @ ''@LOAD_AND_GO'', [])"
  using C8_metadata_without_lgo [of doc_lgo "[(''lgo'', JBool True), (''author'', JStr ''me'')]"]
  by (simp add: doc_lgo_def headerSections_def bodySections_def quoteEscape_def JSON_stringify_def
        quoteJSONString_def quoteJSONChar_def dq_def nl_def)
subsection \<open>Arguments\<close>























subsection \<open>The grouping of a repeat argument's values\<close>













section \<open>Evaluating the patterns and the number readers\<close>

lemma rep_numeral: "rep (numeral k) r = Seq r (rep (pred_numeral k) r)"
  by (simp add: numeral_eq_Suc)

lemma upto_numeral: "upto (numeral k) r = Opt (Seq r (upto (pred_numeral k) r))"
  by (simp add: numeral_eq_Suc)

lemma floor_rat_numeral: "\<lfloor>(numeral a :: rat) / numeral b\<rfloor> = numeral a div numeral b"
  using floor_divide_of_int_eq [of "numeral a" "numeral b", where ?'a = rat] by simp

lemma replicate_num: "replicate (numeral k) x = x # replicate (pred_numeral k) x"
  by (simp add: numeral_eq_Suc)

lemma scaleUp_numeral:
  "scaleUp (numeral k) a e =
     (if a = of_int \<lfloor>a\<rfloor> then (nat \<lfloor>a\<rfloor>, e) else scaleUp (pred_numeral k) (a * 10) (e - 1))"
  by (simp add: numeral_eq_Suc)

lemmas rx_defs =
  rx_exec_def plus_def digit_def whitespace_def rep_numeral upto_numeral
  ABSOLUTE_TIME_def RELATIVE_TIME_def RELATIVE_SIMPLE_def EPOCH_TIME_def EPOCH_SIMPLE_def doyDurationBody_def
  doyOrYmdRegex_def bothCases_def unixEpochRegex_def bareNumberRegex_def
  fullValidDurationRegex_def validNegationRegex_def validYearsDurationRegex_def
  validDaysDurationRegex_def validHoursDurationRegex_def validMinutesDurationRegex_def
  validSecondsDurationRegex_def validMillisecondsDurationRegex_def validMicrosecondsDurationRegex_def
  unitRegex_def validDurationValueRegex_def

lemmas num_defs =
  parseFloat_def parseInt_def toNumber_def trim_def trimStart_def trimEnd_def isWhiteSpace_def isDigit_def
  digits_val_def digit_val_def signed_def grpOr_def grp_def

lemmas str_defs =
  padStart_def String_num_def String_pos_def decimalParts_def exponentForm_def String_int_def digit_char_def
  floor_rat_numeral replicate_num scaleUp_numeral

lemmas date_defs =
  getDoyTime_def getDoyTimeComponents_def getDoy_def getUTCFullYear_def getUTCHours_def
  getUTCMinutes_def getUTCSeconds_def getUTCMilliseconds_def getMilliseconds_def getTime_def
  Date_UTC_def Math_trunc_def DayFromYear_def msPerDay_def maxTime_def

subsection \<open>The example of \<open>getBalancedDuration\<close>\<close>

lemma bal_full: "rx_exec fullValidDurationRegex ''-002T00:60:00.010'' = None"
  by code_simp

lemma bal_ymd: "rx_exec (doyOrYmdRegex 6) ''-002T00:60:00.010'' = None"
  by code_simp

lemma bal_epoch: "rx_exec EPOCH_TIME ''-002T00:60:00.010'' =
  Some [(''ms'', ''010''), (''secs'', ''00''), (''mins'', ''60''), (''hr'', ''00''), (''doy'', ''002''), (''sign'', ''-'')]"
  by code_simp

lemma bal_parse: "parseDurationString ''-002T00:60:00.010'' USeconds =
  Inr (Duration \<lparr> days = Num 2, hours = Num 0, isNegative = True, microseconds = Num 0,
                   milliseconds = Num 10, minutes = Num 60, seconds = Num 0, years = Num 0 \<rparr>)"
  by (simp add: parseDurationString_def parseDoyOrYmdTime_def parseDOYDurationTime_def
        bal_full bal_ymd bal_epoch num_defs)

lemma bal_doy: "convertDurationToDoy
    (Duration \<lparr> days = Num 2, hours = Num 0, isNegative = True, microseconds = Num 0,
                milliseconds = Num 10, minutes = Num 60, seconds = Num 0, years = Num 0 \<rparr>)
  = ''1970-002T00:60:00.10000''"
  by (simp add: convertDurationToDoy_def str_defs)

lemma bal_unix_rx: "rx_exec unixEpochRegex ''1970-002T00:60:00.10000'' =
  Some [(''6'', ''100''), (''5'', ''00''), (''4'', ''60''), (''3'', ''00''), (''2'', ''002''), (''1'', ''1970'')]"
  by code_simp

lemma bal_unix: "getUnixEpochTime ''1970-002T00:60:00.10000'' = Num 90000100"
  by (simp add: getUnixEpochTime_def bal_unix_rx num_defs date_defs)

lemma bal_date: "new_Date (Num 90000100) = Some 90000100"
  by (simp add: Math_trunc_def maxTime_def)

lemma bal_year: "YearFromTime 90000100 = 1970"
  by (simp add: YearFromTime_def Day_def DayFromYear_def msPerDay_def)

lemma bal_time: "getDoyTime (Some 90000100) True = ''1970-002T01:00:00.100''"
  by (simp add: bal_year date_defs str_defs)

lemma bal_ymd2: "rx_exec (doyOrYmdRegex 6) ''1970-002T01:00:00.100'' =
  Some [(''time'', ''01:00:00.100''), (''dec'', ''.100''), (''sec'', ''00''), (''min'', ''00''), (''hour'', ''01''),
        (''doy'', ''002''), (''year'', ''1970'')]"
  by code_simp

lemma bal_parsed: "parseDoyOrYmdTime ''1970-002T01:00:00.100'' 6 =
  Some (Doy \<lparr> hour = Num 1, min' = Num 0, ms = Num 100, sec = Num 0, time' = ''01:00:00.100'',
               year = Num 1970, doy = Num 2 \<rparr>)"
  by (simp add: parseDoyOrYmdTime_def bal_ymd2 num_defs floor_rat_numeral PartialReturn.defs ParsedDoyString.defs)

text \<open>
  C2. The documented example of \<open>getBalancedDuration\<close>: the code returns a millisecond
  fraction of \<open>.100\<close>, not the \<open>.010\<close> that its documentation and the claim give.
  \<open>convertDurationToDoy\<close> multiplies the 10 milliseconds by 1000 and prints \<open>10000\<close>, of
  which \<open>getUnixEpochTime\<close> reads the first three digits.
\<close>

theorem C2_balanced_duration_example:
  "getBalancedDuration ''-002T00:60:00.010'' = Inr ''-002T01:00:00.100''"
  by (simp add: getBalancedDuration_def bal_parse bal_doy bal_unix bal_date bal_time bal_parsed str_defs del: new_Date.simps)

subsection \<open>The simple time forms\<close>

text \<open>
  C7. \<open>RELATIVE_SIMPLE\<close> has no anchor at the start, unlike \<open>EPOCH_SIMPLE\<close> and every other
  pattern of the file: a text that only ends in a number is validated, though it is not a
  bare signed decimal number.
\<close>

theorem C7_relative_simple_accepts_prefix:
  "validateTime ''abc5'' RELATIVE_SIMPLE_TYPE \<and> \<not> bareSignedDecimal ''abc5''
   \<and> \<not> validateTime ''abc5'' EPOCH_SIMPLE_TYPE"
proof -
  have a: "rx_exec RELATIVE_SIMPLE ''abc5'' = Some []" by code_simp
  have b: "rx_exec EPOCH_SIMPLE ''abc5'' = None" by code_simp
  have c: "\<not> bareSignedDecimal ''abc5''" by (simp add: bareSignedDecimal_def isDigit_def)
  show ?thesis using a b c by simp
qed

subsection \<open>Durations with a unit or a sign inside\<close>

lemma parseFloat_zero: "parseFloat ''0'' = Num 0"
  by (simp add: num_defs)

lemma us_full: "rx_exec fullValidDurationRegex ''1500000us'' = Some [(''microseconds'', ''1500000'')]"
  by code_simp

lemma us_float: "parseFloat ''1500000'' = Num 1500000"
  by (simp add: num_defs)

text \<open>
  C3 as stated fails: with the suffix \<open>us\<close> the text is read by the unit-suffixed pattern,
  whose fields are the numbers as written; 1500000 microseconds stay 1500000 microseconds
  and the milliseconds are 0, not 500.
\<close>

theorem C3_counterexample:
  "parseDurationString ''1500000us'' UMicroseconds =
     Inr (Duration \<lparr> days = Num 0, hours = Num 0, isNegative = False, microseconds = Num 1500000,
                      milliseconds = Num 0, minutes = Num 0, seconds = Num 0, years = Num 0 \<rparr>)
   \<and> Num 0 \<noteq> Num (of_int ((1500000 div 1000) mod 1000))"
  by (simp add: parseDurationString_def us_full us_float parseFloat_zero grpOr_def)

lemma neg_full: "rx_exec fullValidDurationRegex ''1h -30m'' = Some [(''minutes'', ''-30''), (''hours'', ''1'')]"
  by code_simp

lemma neg_floats: "parseFloat ''-30'' = Num (- 30)" "parseFloat ''1'' = Num 1"
  by (simp_all add: num_defs)

text \<open>
  C6 as stated fails: in the unit-suffixed form each field may carry its own sign, and a
  field written with a minus is stored negative while \<open>isNegative\<close> stays false.
\<close>

theorem C6_counterexample:
  "parseDurationString ''1h -30m'' UMicroseconds =
     Inr (Duration \<lparr> days = Num 0, hours = Num 1, isNegative = False, microseconds = Num 0,
                      milliseconds = Num 0, minutes = Num (- 30), seconds = Num 0, years = Num 0 \<rparr>)"
  by (simp add: parseDurationString_def neg_full neg_floats parseFloat_zero grpOr_def)

end
